theory Spec2Isabelle
  imports Main "HOL-Library.Word" "HOL-Library.Log_Nat"
begin

section \<open>JavaScript strings\<close>

text \<open>
  A JavaScript string is a sequence of UTF-16 code units. String literals of the
  migration script that are plain ASCII are written \<open>js ''...''\<close>; every other
  character is given by its code unit.
\<close>

type_synonym jschar = "16 word"
type_synonym jsstring = "jschar list"

definition js :: "string \<Rightarrow> jsstring" where
  "js s = map (\<lambda>c. word_of_nat (of_char c)) s"

text \<open>\<open>String.prototype.trim\<close> strips WhiteSpace and LineTerminator code units.\<close>

definition isWhiteSpace :: "jschar \<Rightarrow> bool" where
  "isWhiteSpace c \<longleftrightarrow>
     c = 0x09 \<or> c = 0x0A \<or> c = 0x0B \<or> c = 0x0C \<or> c = 0x0D \<or> c = 0x20 \<or> c = 0xA0 \<or>
     c = 0x1680 \<or> (0x2000 \<le> c \<and> c \<le> 0x200A) \<or> c = 0x2028 \<or> c = 0x2029 \<or>
     c = 0x202F \<or> c = 0x205F \<or> c = 0x3000 \<or> c = 0xFEFF"

definition trim :: "jsstring \<Rightarrow> jsstring" where
  "trim s = rev (dropWhile isWhiteSpace (rev (dropWhile isWhiteSpace s)))"

definition startsWith :: "jsstring \<Rightarrow> jsstring \<Rightarrow> bool" where
  "startsWith p s \<longleftrightarrow> take (length p) s = p"

text \<open>\<open>s.includes(p)\<close>: \<open>p\<close> occurs somewhere in \<open>s\<close>.\<close>

fun includes_str :: "jsstring \<Rightarrow> jsstring \<Rightarrow> bool" where
  "includes_str p [] \<longleftrightarrow> p = []"
| "includes_str p (c # cs) \<longleftrightarrow> startsWith p (c # cs) \<or> includes_str p cs"

text \<open>
  \<open>s.split(sep)\<close> with a string separator: the occurrences of \<open>sep\<close> are found from
  left to right and do not overlap; an empty separator splits into code units.
  \<open>split_from sep acc s\<close> carries the piece collected since the last separator.
\<close>

function split_from :: "jsstring \<Rightarrow> jsstring \<Rightarrow> jsstring \<Rightarrow> jsstring list" where
  "split_from sep acc [] = [acc]"
| "split_from sep acc (c # cs) =
     (if startsWith sep (c # cs)
      then acc # split_from sep [] (drop (length sep - 1) cs)
      else split_from sep (acc @ [c]) cs)"
  by pat_completeness auto
termination
  by (relation "measure (\<lambda>(sep, acc, s). length s)") auto

definition split :: "jsstring \<Rightarrow> jsstring \<Rightarrow> jsstring list" where
  "split sep s = (if sep = [] then map (\<lambda>c. [c]) s else split_from sep [] s)"

fun join :: "jsstring \<Rightarrow> jsstring list \<Rightarrow> jsstring" where
  "join glue [] = []"
| "join glue [x] = x"
| "join glue (x # y # ys) = x @ glue @ join glue (y # ys)"

section \<open>Regular expressions\<close>

text \<open>
  Every regular expression of the script starts with a literal character (\<open>&\<close> or
  \<open>&lt;\<close>), so a pattern is modelled by a matcher that is given the code unit at the
  current position and the rest of the string, and answers with the captured group and the
  number of code units of the rest that the match covers. The drivers below are the
  global \<open>replace\<close>, the global \<open>match\<close>, \<open>split\<close> and the first-match search.
\<close>

type_synonym 'g matcher = "jschar \<Rightarrow> jsstring \<Rightarrow> ('g \<times> nat) option"

function replace_re :: "'g matcher \<Rightarrow> ('g \<Rightarrow> jsstring) \<Rightarrow> jsstring \<Rightarrow> jsstring" where
  "replace_re m f [] = []"
| "replace_re m f (c # cs) =
     (case m c cs of
        None \<Rightarrow> c # replace_re m f cs
      | Some (g, n) \<Rightarrow> f g @ replace_re m f (drop n cs))"
  by pat_completeness auto
termination
  by (relation "measure (\<lambda>(m, f, s). length s)") auto

function match_all :: "'g matcher \<Rightarrow> jsstring \<Rightarrow> jsstring list" where
  "match_all m [] = []"
| "match_all m (c # cs) =
     (case m c cs of
        None \<Rightarrow> match_all m cs
      | Some (g, n) \<Rightarrow> (c # take n cs) # match_all m (drop n cs))"
  by pat_completeness auto
termination
  by (relation "measure (\<lambda>(m, s). length s)") auto

fun has_match :: "'g matcher \<Rightarrow> jsstring \<Rightarrow> bool" where
  "has_match m [] \<longleftrightarrow> False"
| "has_match m (c # cs) \<longleftrightarrow> m c cs \<noteq> None \<or> has_match m cs"

text \<open>A literal at the start of a string; the result is what follows it.\<close>

fun lit :: "jsstring \<Rightarrow> jsstring \<Rightarrow> jsstring option" where
  "lit [] s = Some s"
| "lit (p # ps) [] = None"
| "lit (p # ps) (c # cs) = (if c = p then lit ps cs else None)"

definition isDigit :: "jschar \<Rightarrow> bool" where
  "isDigit c \<longleftrightarrow> 0x30 \<le> c \<and> c \<le> 0x39"

definition isHexDigit :: "jschar \<Rightarrow> bool" where
  "isHexDigit c \<longleftrightarrow> isDigit c \<or> (0x61 \<le> c \<and> c \<le> 0x66) \<or> (0x41 \<le> c \<and> c \<le> 0x46)"

text \<open>\<open>/&#(\d+);/\<close>: the greedy digit run is followed by \<open>;\<close> or the match fails.\<close>

definition dec_ref :: "jsstring matcher" where
  "dec_ref c cs =
     (if c \<noteq> 0x26 then None
      else case lit (js ''#'') cs of
        None \<Rightarrow> None
      | Some r \<Rightarrow>
          (let code = takeWhile isDigit r in
           if code = [] then None
           else case lit (js '';'') (dropWhile isDigit r) of
             None \<Rightarrow> None
           | Some _ \<Rightarrow> Some (code, length code + 2)))"

text \<open>\<open>/&#x([0-9a-fA-F]+);/\<close>\<close>

definition hex_ref :: "jsstring matcher" where
  "hex_ref c cs =
     (if c \<noteq> 0x26 then None
      else case lit (js ''#x'') cs of
        None \<Rightarrow> None
      | Some r \<Rightarrow>
          (let code = takeWhile isHexDigit r in
           if code = [] then None
           else case lit (js '';'') (dropWhile isHexDigit r) of
             None \<Rightarrow> None
           | Some _ \<Rightarrow> Some (code, length code + 3)))"

section \<open>Numbers\<close>

text \<open>
  \<open>parseInt\<close> reads the digits as a mathematical integer and returns the nearest
  double (53 significant bits, ties to even; a value that needs more than 1024 bits is
  \<open>Infinity\<close>, written \<open>None\<close>). \<open>String.fromCharCode\<close>
  applies \<open>ToUint16\<close>: \<open>Infinity\<close> becomes 0, any other value is taken modulo \<open>2^16\<close>.
\<close>

definition digitValue :: "jschar \<Rightarrow> nat" where
  "digitValue c =
     (if isDigit c then unat c - 48
      else if 0x61 \<le> c \<and> c \<le> 0x66 then unat c - 87
      else unat c - 55)"

definition mathInt :: "nat \<Rightarrow> jsstring \<Rightarrow> nat" where
  "mathInt radix code = foldl (\<lambda>acc c. acc * radix + digitValue c) 0 code"

definition toNumber :: "nat \<Rightarrow> nat option" where
  "toNumber n =
     (let l = floorlog 2 n in
      if l \<le> 53 then Some n
      else
        let e = l - 53;
            q = n div 2 ^ e;
            r = n mod 2 ^ e;
            h = 2 ^ (e - 1);
            q' = (if h < r \<or> (r = h \<and> odd q) then q + 1 else q);
            v = q' * 2 ^ e
        in if 1024 < floorlog 2 v then None else Some v)"

definition parseInt :: "jsstring \<Rightarrow> nat \<Rightarrow> nat option" where
  "parseInt code radix = toNumber (mathInt radix code)"

definition fromCharCode :: "nat option \<Rightarrow> jsstring" where
  "fromCharCode x = (case x of None \<Rightarrow> [0] | Some v \<Rightarrow> [word_of_nat v])"

section \<open>Entity decoder\<close>

definition namedEntities :: "(jsstring \<times> jsstring) list" where
  "namedEntities =
    [(js ''&nbsp;'', js '' ''),
     (js ''&amp;'', js ''&''),
     (js ''&lt;'', js ''<''),
     (js ''&gt;'', js ''>''),
     (js ''&quot;'', [0x22]),
     (js ''&apos;'', [0x27]),
     (js ''&ndash;'', [0x2013]),
     (js ''&mdash;'', [0x2014]),
     (js ''&lsquo;'', [0x2018]),
     (js ''&rsquo;'', [0x2019]),
     (js ''&ldquo;'', [0x201C]),
     (js ''&rdquo;'', [0x201D]),
     (js ''&hellip;'', [0x2026]),
     (js ''&copy;'', [0xA9]),
     (js ''&reg;'', [0xAE]),
     (js ''&trade;'', [0x2122]),
     (js ''&euro;'', [0x20AC]),
     (js ''&pound;'', [0xA3]),
     (js ''&yen;'', [0xA5]),
     (js ''&cent;'', [0xA2]),
     (js ''&deg;'', [0xB0]),
     (js ''&plusmn;'', [0xB1]),
     (js ''&times;'', [0xD7]),
     (js ''&divide;'', [0xF7]),
     (js ''&frac12;'', [0xBD]),
     (js ''&frac14;'', [0xBC]),
     (js ''&frac34;'', [0xBE])]"

definition replaceNamed :: "jsstring \<Rightarrow> jsstring" where
  "replaceNamed text =
     foldl (\<lambda>decoded (entity, char). join char (split entity decoded)) text namedEntities"

definition decodeHtmlEntities :: "jsstring \<Rightarrow> jsstring" where
  "decodeHtmlEntities text =
     (if text = [] then []
      else
        let decoded = replaceNamed text;
            decoded = replace_re dec_ref (\<lambda>code. fromCharCode (parseInt code 10)) decoded;
            decoded = replace_re hex_ref (\<lambda>code. fromCharCode (parseInt code 16)) decoded
        in decoded)"

text \<open>
  Text with a remaining entity: one of the named entities occurs in it, or one of the two
  patterns for numeric references matches somewhere.
\<close>

definition hasEntity :: "jsstring \<Rightarrow> bool" where
  "hasEntity s \<longleftrightarrow>
     list_ex (\<lambda>(entity, char). includes_str entity s) namedEntities \<or>
     has_match dec_ref s \<or> has_match hex_ref s"

section \<open>Case mapping\<close>

text \<open>
  \<open>toLowerCase\<close> is only ever followed by \<open>startsWith\<close> with one of the ASCII
  prefixes \<open>&lt;table\<close>, \<open>&lt;ul\<close>, \<open>&lt;ol\<close>, \<open>&lt;th\<close>, and the \<open>i\<close> flag of a regular
  expression without the \<open>u\<close> flag never identifies an ASCII letter with a code unit
  outside ASCII. No code unit outside ASCII has one of the letters of these prefixes in
  its lower case, so the ASCII mapping decides these tests as the full mapping does.
\<close>

definition lowerChar :: "jschar \<Rightarrow> jschar" where
  "lowerChar c = (if 0x41 \<le> c \<and> c \<le> 0x5A then c + 0x20 else c)"

definition toLowerCase :: "jsstring \<Rightarrow> jsstring" where
  "toLowerCase s = map lowerChar s"

text \<open>A literal under the \<open>i\<close> flag.\<close>

fun lit_ci :: "jsstring \<Rightarrow> jsstring \<Rightarrow> jsstring option" where
  "lit_ci [] s = Some s"
| "lit_ci (p # ps) [] = None"
| "lit_ci (p # ps) (c # cs) = (if lowerChar c = lowerChar p then lit_ci ps cs else None)"

section \<open>Lexical nodes\<close>

text \<open>
  The serialized editor nodes the script builds. Fields that are the same constant in
  every node of a kind are carried by the constructor: \<open>version: 1\<close> everywhere;
  \<open>direction: 'ltr'\<close>, \<open>format: ''\<close>, \<open>indent: 0\<close> in paragraphs, headings, list items,
  lists and the root; \<open>textFormat: 0\<close> in paragraphs; \<open>width\<close>, \<open>backgroundColor\<close> and
  \<open>height\<close> undefined in table cells and rows.
\<close>

datatype lexical_node =
    Text (nodeText: jsstring)
  | Paragraph (children: "lexical_node list")
  | Heading (tag: jsstring) (children: "lexical_node list")
  | ListItem (children: "lexical_node list") (itemValue: nat)
  | ListNode (listType: jsstring) (start: nat) (tag: jsstring) (children: "lexical_node list")
  | TableCell (children: "lexical_node list") (colSpan: nat) (rowSpan: nat) (headerState: nat)
  | TableRow (children: "lexical_node list")
  | Table (children: "lexical_node list")
  | Root (children: "lexical_node list")

section \<open>The parsed markup tree\<close>

text \<open>
  \<open>parse\<close> and the tree it returns come from the package \<open>node-html-parser\<close>, which is
  not part of the repository. The tree is the list of child nodes of the root: text nodes
  with their raw text, and elements with a tag name, the attribute text as written
  (\<open>rawAttrs\<close>), the attributes read from it (\<open>rawAttributes\<close>, names as written, each
  name once) and children. What the library computes by means that cannot be read from
  the repository is a parameter of every function that uses it:
  \<^item> \<open>parseHtml\<close>, the parser;
  \<^item> \<open>decode\<close>, its entity decoder, through which \<open>textContent\<close> and every attribute
    value that is read pass;
  \<^item> \<open>quoteAttribute\<close>, which quotes an attribute value when the attribute text of an
    element is written anew.
\<close>

datatype attrs = Attrs (rawAttrs: jsstring) (rawAttributes: "(jsstring \<times> jsstring) list")

datatype html_node =
    TextNode jsstring
  | Element (rawTagName: jsstring) (attrsOf: attrs) (childNodes: "html_node list")

record html_lib =
  parseHtml :: "jsstring \<Rightarrow> html_node list"
  decode :: "jsstring \<Rightarrow> jsstring"
  quoteAttribute :: "jsstring \<Rightarrow> jsstring"

fun isElement :: "html_node \<Rightarrow> bool" where
  "isElement (TextNode t) \<longleftrightarrow> False"
| "isElement (Element n a cs) \<longleftrightarrow> True"

text \<open>
  \<open>rawText\<close> is the text of all descendants in document order, where a \<open>br\<close> element
  counts as a line feed; \<open>textContent\<close> is the raw text, decoded.
\<close>

fun rawText :: "html_node \<Rightarrow> jsstring" where
  "rawText (TextNode t) = t"
| "rawText (Element n a cs) =
     (if toLowerCase n = js ''br'' then [0x0A] else concat (map rawText cs))"

definition textContent :: "html_lib \<Rightarrow> html_node \<Rightarrow> jsstring" where
  "textContent lib node = decode lib (rawText node)"

text \<open>All elements below a node, itself included, and below the root, in document order.\<close>

fun elements :: "html_node \<Rightarrow> html_node list" where
  "elements (TextNode t) = []"
| "elements (Element n a cs) = Element n a cs # concat (map elements cs)"

definition allElements :: "html_node list \<Rightarrow> html_node list" where
  "allElements doc = concat (map elements doc)"

text \<open>A type selector compares the tag name without regard to ASCII case.\<close>

fun hasTag :: "jsstring \<Rightarrow> html_node \<Rightarrow> bool" where
  "hasTag t (TextNode x) \<longleftrightarrow> False"
| "hasTag t (Element n a cs) \<longleftrightarrow> toLowerCase n = t"

definition querySelectorAll :: "(html_node \<Rightarrow> bool) \<Rightarrow> html_node list \<Rightarrow> html_node list" where
  "querySelectorAll sel doc = filter sel (allElements doc)"

section \<open>List parsing\<close>

definition itemText :: "html_lib \<Rightarrow> html_node \<Rightarrow> jsstring" where
  "itemText lib item = decodeHtmlEntities (trim (textContent lib item))"

fun listItemLoop :: "html_lib \<Rightarrow> html_node list \<Rightarrow> nat \<Rightarrow> lexical_node list" where
  "listItemLoop lib [] v = []"
| "listItemLoop lib (item # items) v =
     (let text = itemText lib item in
      if text \<noteq> []
      then ListItem [Paragraph [Text text]] v # listItemLoop lib items (v + 1)
      else listItemLoop lib items v)"

definition parseHtmlList :: "html_lib \<Rightarrow> jsstring \<Rightarrow> bool \<Rightarrow> lexical_node option" where
  "parseHtmlList lib listHtml isOrdered =
     (let doc = parseHtml lib listHtml;
          items = querySelectorAll (hasTag (js ''li'')) doc
      in if items = [] then None
         else
           let listItems = listItemLoop lib items 1
           in if listItems = [] then None
              else Some (ListNode (if isOrdered then js ''number'' else js ''bullet'') 1
                           (if isOrdered then js ''ol'' else js ''ul'') listItems))"

section \<open>Table parsing\<close>

text \<open>\<open>[^>]*>\<close>: everything up to and including the first \<open>&gt;\<close>.\<close>

definition skip_to_gt :: "jsstring \<Rightarrow> jsstring option" where
  "skip_to_gt s = (case dropWhile (\<lambda>c. c \<noteq> 0x3E) s of [] \<Rightarrow> None | g # r \<Rightarrow> Some r)"

text \<open>
  \<open>[\s\S]*?\<close> followed by a pattern: the lazy star stops at the first position where
  the pattern matches; \<open>find_after p s\<close> is what follows that match.
\<close>

fun find_after :: "(jsstring \<Rightarrow> jsstring option) \<Rightarrow> jsstring \<Rightarrow> jsstring option" where
  "find_after p [] = p []"
| "find_after p (c # cs) = (case p (c # cs) of Some r \<Rightarrow> Some r | None \<Rightarrow> find_after p cs)"

definition consumed :: "jsstring \<Rightarrow> jsstring option \<Rightarrow> (unit \<times> nat) option" where
  "consumed cs rest = (case rest of None \<Rightarrow> None | Some r \<Rightarrow> Some ((), length cs - length r))"

text \<open>\<open>/&lt;tr[^>]*>[\s\S]*?&lt;\/tr>/gi\<close>\<close>

definition row_re :: "unit matcher" where
  "row_re c cs =
     (if c \<noteq> 0x3C then None
      else consumed cs
        (Option.bind (lit_ci (js ''tr'') cs) (\<lambda>r.
         Option.bind (skip_to_gt r) (\<lambda>r.
         find_after (lit_ci (js ''</tr>'')) r))))"

text \<open>\<open>t[hd]\<close> under the \<open>i\<close> flag.\<close>

definition lit_thd :: "jsstring \<Rightarrow> jsstring option" where
  "lit_thd s =
     (case lit_ci (js ''t'') s of
        None \<Rightarrow> None
      | Some r \<Rightarrow>
          (case r of
             [] \<Rightarrow> None
           | x # r' \<Rightarrow> if lowerChar x = 0x68 \<or> lowerChar x = 0x64 then Some r' else None))"

text \<open>\<open>/&lt;t[hd][^>]*>[\s\S]*?&lt;\/t[hd]>/gi\<close>\<close>

definition cell_close :: "jsstring \<Rightarrow> jsstring option" where
  "cell_close s = Option.bind (lit (js ''</'') s) (\<lambda>r. Option.bind (lit_thd r) (lit (js ''>'')))"

definition cell_re :: "unit matcher" where
  "cell_re c cs =
     (if c \<noteq> 0x3C then None
      else consumed cs
        (Option.bind (lit_thd cs) (\<lambda>r.
         Option.bind (skip_to_gt r) (\<lambda>r.
         find_after cell_close r))))"

text \<open>\<open>/&lt;\/?t[hd][^>]*>/gi\<close>: the optional slash is taken when it is there.\<close>

definition cell_tag_re :: "unit matcher" where
  "cell_tag_re c cs =
     (if c \<noteq> 0x3C then None
      else consumed cs
        (Option.bind (lit_thd (case lit (js ''/'') cs of Some r \<Rightarrow> r | None \<Rightarrow> cs))
           skip_to_gt))"

text \<open>\<open>/&lt;[^>]+>/g\<close>: at least one code unit between the brackets.\<close>

definition tag_re :: "unit matcher" where
  "tag_re c cs =
     (if c \<noteq> 0x3C then None
      else if takeWhile (\<lambda>c. c \<noteq> 0x3E) cs = [] then None
      else consumed cs (skip_to_gt cs))"

definition stripTags :: "jsstring \<Rightarrow> jsstring" where
  "stripTags s = replace_re tag_re (\<lambda>_. []) s"

definition isHeaderCell :: "jsstring \<Rightarrow> bool" where
  "isHeaderCell cellHtml \<longleftrightarrow> startsWith (js ''<th'') (toLowerCase cellHtml)"

definition cellContent :: "jsstring \<Rightarrow> jsstring" where
  "cellContent cellHtml =
     decodeHtmlEntities (trim (stripTags (replace_re cell_tag_re (\<lambda>_. []) cellHtml)))"

definition parseCell :: "jsstring \<Rightarrow> lexical_node" where
  "parseCell cellHtml =
     (let isHeader = isHeaderCell cellHtml;
          cellContent = cellContent cellHtml
      in TableCell
           [Paragraph (if cellContent \<noteq> [] then [Text cellContent] else [])]
           1 1 (if isHeader then 1 else 0))"

fun rowLoop :: "jsstring list \<Rightarrow> lexical_node list" where
  "rowLoop [] = []"
| "rowLoop (rowHtml # rowMatches) =
     (let cellMatches = match_all cell_re rowHtml in
      if cellMatches = [] then rowLoop rowMatches
      else TableRow (map parseCell cellMatches) # rowLoop rowMatches)"

definition parseHtmlTable :: "jsstring \<Rightarrow> lexical_node option" where
  "parseHtmlTable tableHtml =
     (let rowMatches = match_all row_re tableHtml in
      if rowMatches = [] then None
      else
        let rows = rowLoop rowMatches
        in if rows = [] then None else Some (Table rows))"

section \<open>Markup sanitizer\<close>

subsection \<open>Pre-processing of the markup string\<close>

text \<open>
  \<open>/&lt;!-- \/?wp:[^>]+ -->/g\<close>: the run \<open>[^>]+\<close> cannot pass a \<open>&gt;\<close>, so the match
  ends at the first \<open>&gt;\<close> after \<open>wp:\<close>; the run gives back its last three code units,
  which are \<open> --\<close>, and keeps at least one.
\<close>

definition wp_comment_re :: "unit matcher" where
  "wp_comment_re c cs =
     (if c \<noteq> 0x3C then None
      else case lit (js ''!-- '') cs of
        None \<Rightarrow> None
      | Some r \<Rightarrow>
          (case lit (js ''wp:'') (case lit (js ''/'') r of Some r' \<Rightarrow> r' | None \<Rightarrow> r) of
             None \<Rightarrow> None
           | Some r \<Rightarrow>
               (let run = takeWhile (\<lambda>c. c \<noteq> 0x3E) r in
                if 4 \<le> length run \<and> drop (length run - 3) run = js '' --''
                then consumed cs (skip_to_gt r) else None)))"

text \<open>\<open>/&lt;\/[0-9][a-z0-9_-]*>/gi\<close>\<close>

definition isTagChar :: "jschar \<Rightarrow> bool" where
  "isTagChar c \<longleftrightarrow>
     (0x61 \<le> lowerChar c \<and> lowerChar c \<le> 0x7A) \<or> isDigit c \<or> c = 0x5F \<or> c = 0x2D"

definition bad_close_re :: "unit matcher" where
  "bad_close_re c cs =
     (if c \<noteq> 0x3C then None
      else case lit (js ''/'') cs of
        None \<Rightarrow> None
      | Some r \<Rightarrow>
          (case r of
             [] \<Rightarrow> None
           | d # r' \<Rightarrow>
               if isDigit d then consumed cs (lit (js ''>'') (dropWhile isTagChar r'))
               else None))"

definition preprocess :: "jsstring \<Rightarrow> jsstring" where
  "preprocess html =
     (let cleaned = replace_re wp_comment_re (\<lambda>_. []) html;
          cleaned = replace_re bad_close_re (\<lambda>_. []) cleaned
      in cleaned)"

subsection \<open>Attributes and selectors\<close>

text \<open>
  Reading an attribute (\<open>getAttribute\<close>, \<open>hasAttribute\<close>, and the selectors, which read
  through them) goes by the name in lower case; of two spellings of a name the later one
  is read; the value read is decoded. \<open>removeAttribute\<close> deletes the attribute whose
  name is spelled exactly as asked for, and writes the attribute text of the element anew
  from the attributes that are left.
\<close>

definition getAttr :: "html_lib \<Rightarrow> jsstring \<Rightarrow> attrs \<Rightarrow> jsstring option" where
  "getAttr lib name a =
     map_option (decode lib)
       (map_of (rev (map (\<lambda>(k, v). (toLowerCase k, v)) (rawAttributes a))) (toLowerCase name))"

definition hasAttr :: "jsstring \<Rightarrow> attrs \<Rightarrow> bool" where
  "hasAttr name a \<longleftrightarrow> toLowerCase name \<in> set (map (\<lambda>(k, v). toLowerCase k) (rawAttributes a))"

definition attrString :: "html_lib \<Rightarrow> jsstring \<times> jsstring \<Rightarrow> jsstring" where
  "attrString lib kv =
     (case kv of (name, v) \<Rightarrow> if v = [] then name else name @ js ''='' @ quoteAttribute lib v)"

definition removeAttr :: "html_lib \<Rightarrow> jsstring \<Rightarrow> attrs \<Rightarrow> attrs" where
  "removeAttr lib key a =
     (let kept = filter (\<lambda>(k, v). k \<noteq> key) (rawAttributes a)
      in Attrs (join (js '' '') (map (attrString lib) kept)) kept)"

fun getAttribute :: "html_lib \<Rightarrow> jsstring \<Rightarrow> html_node \<Rightarrow> jsstring option" where
  "getAttribute lib name (TextNode t) = None"
| "getAttribute lib name (Element n a cs) = getAttr lib name a"

fun hasAttribute :: "jsstring \<Rightarrow> html_node \<Rightarrow> bool" where
  "hasAttribute name (TextNode t) \<longleftrightarrow> False"
| "hasAttribute name (Element n a cs) \<longleftrightarrow> hasAttr name a"

text \<open>The words of an attribute value, separated by white space.\<close>

fun tokens :: "jsstring \<Rightarrow> jsstring \<Rightarrow> jsstring list" where
  "tokens cur [] = (if cur = [] then [] else [cur])"
| "tokens cur (c # cs) =
     (if isWhiteSpace c then (if cur = [] then tokens [] cs else cur # tokens [] cs)
      else tokens (cur @ [c]) cs)"

text \<open>\<open>.name\<close>\<close>

definition hasClass :: "html_lib \<Rightarrow> jsstring \<Rightarrow> html_node \<Rightarrow> bool" where
  "hasClass lib name el \<longleftrightarrow>
     (case getAttribute lib (js ''class'') el of
        None \<Rightarrow> False
      | Some v \<Rightarrow> name \<in> set (tokens [] v))"

text \<open>\<open>[attr*="part"]\<close>\<close>

definition attrContains :: "html_lib \<Rightarrow> jsstring \<Rightarrow> jsstring \<Rightarrow> html_node \<Rightarrow> bool" where
  "attrContains lib name part el \<longleftrightarrow>
     (case getAttribute lib name el of None \<Rightarrow> False | Some v \<Rightarrow> includes_str part v)"

text \<open>A selector list \<open>a, b, c\<close>.\<close>

definition anyOf :: "(html_node \<Rightarrow> bool) list \<Rightarrow> html_node \<Rightarrow> bool" where
  "anyOf sels el \<longleftrightarrow> list_ex (\<lambda>sel. sel el) sels"

text \<open>\<open>el.querySelector(sel)\<close>: the first matching descendant of \<open>el\<close>.\<close>

definition querySelector :: "(html_node \<Rightarrow> bool) \<Rightarrow> html_node \<Rightarrow> html_node option" where
  "querySelector sel el =
     (case el of
        TextNode t \<Rightarrow> None
      | Element n a cs \<Rightarrow> (case querySelectorAll sel cs of [] \<Rightarrow> None | x # xs \<Rightarrow> Some x))"

subsection \<open>Serialization\<close>

text \<open>
  \<open>toString\<close> writes a text node as its raw text and an element as its tags around its
  children, with the attribute text as it stands: as written in the markup, unless an
  attribute of the element has been removed. A void element has no end tag.
  \<open>innerHTML\<close> is the serialization of the children.
\<close>

definition voidTags :: "jsstring list" where
  "voidTags = map js [''area'', ''base'', ''br'', ''col'', ''embed'', ''hr'', ''img'', ''input'',
     ''link'', ''meta'', ''param'', ''source'', ''track'', ''wbr'']"

fun outerHTML :: "html_node \<Rightarrow> jsstring" where
  "outerHTML (TextNode t) = t"
| "outerHTML (Element n a cs) =
     js ''<'' @ n @ (if rawAttrs a = [] then [] else js '' '' @ rawAttrs a) @ js ''>'' @
     (if toLowerCase n \<in> set voidTags then []
      else concat (map outerHTML cs) @ js ''</'' @ n @ js ''>'')"

definition toString :: "html_node list \<Rightarrow> jsstring" where
  "toString doc = concat (map outerHTML doc)"

definition innerHTML :: "html_node \<Rightarrow> jsstring" where
  "innerHTML el = (case el of TextNode t \<Rightarrow> t | Element n a cs \<Rightarrow> toString cs)"

subsection \<open>Passes over the tree\<close>

text \<open>
  \<open>root.querySelectorAll(sel).forEach((el) => { if (cond) el.remove() })\<close>. The
  elements are visited in document order, so when an element is visited nothing below
  it has been touched yet: the test sees the element as it was when the pass began, and
  what happens below a removed element does not show in the tree.
\<close>

fun removeWhere :: "(html_node \<Rightarrow> bool) \<Rightarrow> html_node \<Rightarrow> html_node list" where
  "removeWhere P (TextNode t) = [TextNode t]"
| "removeWhere P (Element n a cs) =
     (if P (Element n a cs) then []
      else [Element n a (concat (map (removeWhere P) cs))])"

definition removeAll :: "(html_node \<Rightarrow> bool) \<Rightarrow> html_node list \<Rightarrow> html_node list" where
  "removeAll P doc = concat (map (removeWhere P) doc)"

text \<open>\<open>root.querySelectorAll(sel).forEach((el) => { ... el.removeAttribute(...) ... })\<close>\<close>

fun updateWhere :: "(html_node \<Rightarrow> bool) \<Rightarrow> (attrs \<Rightarrow> attrs) \<Rightarrow> html_node \<Rightarrow> html_node" where
  "updateWhere sel f (TextNode t) = TextNode t"
| "updateWhere sel f (Element n a cs) =
     Element n (if sel (Element n a cs) then f a else a) (map (updateWhere sel f) cs)"

definition updateAll ::
    "(html_node \<Rightarrow> bool) \<Rightarrow> (attrs \<Rightarrow> attrs) \<Rightarrow> html_node list \<Rightarrow> html_node list" where
  "updateAll sel f doc = map (updateWhere sel f) doc"

text \<open>
  \<open>tagName\<close> is the tag name in upper case. Outside ASCII, \<open>toUpperCase\<close> yields letters
  of \<open>DIV\<close>, \<open>SECTION\<close> or \<open>FIGURE\<close> only for U+0131 (dotless i), U+017F (long s) and
  U+FB01 (the ligature fi); these are mapped as JavaScript maps them, every other code
  unit outside ASCII is left as it is.
\<close>

definition upperChar :: "jschar \<Rightarrow> jsstring" where
  "upperChar c =
     (if 0x61 \<le> c \<and> c \<le> 0x7A then [c - 0x20]
      else if c = 0x131 then [0x49]
      else if c = 0x17F then [0x53]
      else if c = 0xFB01 then [0x46, 0x49]
      else [c])"

definition tagName :: "jsstring \<Rightarrow> jsstring" where
  "tagName n = concat (map upperChar n)"

definition removeScriptStyle :: "html_node list \<Rightarrow> html_node list" where
  "removeScriptStyle doc =
     (let doc = removeAll (hasTag (js ''style'')) doc;
          doc = removeAll (hasTag (js ''script'')) doc
      in doc)"

definition widgetSelectors :: "html_lib \<Rightarrow> (html_node \<Rightarrow> bool) list" where
  "widgetSelectors lib =
     [anyOf [hasClass lib (js ''hs-cta-embed''), attrContains lib (js ''class'') (js ''hs-cta'')],
      anyOf [hasClass lib (js ''wprm-recipe-user-rating''), hasClass lib (js ''wprm-user-rating''),
             hasClass lib (js ''wprm-recipe-rating''),
             hasClass lib (js ''wprm-recipe-call-to-action''),
             hasClass lib (js ''wprm-call-to-action''), hasClass lib (js ''wprm-recipe-print''),
             hasClass lib (js ''wprm-recipe-pin''), hasClass lib (js ''wprm-cta-rating-modal''),
             attrContains lib (js ''class'') (js ''wprm-recipe-jump'')],
      anyOf [attrContains lib (js ''class'') (js ''slickstream''),
             hasClass lib (js ''wprm-recipe-slickstream'')],
      anyOf [hasClass lib (js ''sr-only''), hasClass lib (js ''screen-reader-text''),
             hasClass lib (js ''wprm-screen-reader-text'')],
      anyOf [attrContains lib (js ''id'') (js ''hubspot''),
             attrContains lib (js ''class'') (js ''hubspot'')],
      hasClass lib (js ''wp-block-kadence-advancedgallery''),
      anyOf [hasClass lib (js ''kb-svg-icon-wrap''),
             hasClass lib (js ''kt-svg-icon-list-single'')]]"

text \<open>Steps 3 to 9: one removal pass for each selector list, in the order of the script.\<close>

definition removeWidgets :: "html_lib \<Rightarrow> html_node list \<Rightarrow> html_node list" where
  "removeWidgets lib doc = foldl (\<lambda>doc sel. removeAll sel doc) doc (widgetSelectors lib)"

definition falsy :: "jsstring option \<Rightarrow> bool" where
  "falsy v \<longleftrightarrow> v = None \<or> v = Some []"

definition removeIconSvgs :: "html_lib \<Rightarrow> html_node list \<Rightarrow> html_node list" where
  "removeIconSvgs lib doc =
     removeAll (\<lambda>svg. hasTag (js ''svg'') svg \<and> falsy (getAttribute lib (js ''width'') svg)
                      \<and> falsy (getAttribute lib (js ''height'') svg)) doc"

definition invalidEventAttrs :: "jsstring list" where
  "invalidEventAttrs = map js [''onclick'', ''onmouseenter'', ''onmouseleave'', ''onfocus'',
     ''onblur'', ''onkeypress'', ''onerror'', ''onload'']"

definition removeEventHandlers :: "html_lib \<Rightarrow> html_node list \<Rightarrow> html_node list" where
  "removeEventHandlers lib doc =
     updateAll isElement
       (\<lambda>a. foldl (\<lambda>a attr. if hasAttr attr a then removeAttr lib attr a else a)
               a invalidEventAttrs) doc"

definition isWrapper :: "html_lib \<Rightarrow> html_node \<Rightarrow> bool" where
  "isWrapper lib = anyOf [attrContains lib (js ''class'') (js ''wp-block-''),
     attrContains lib (js ''class'') (js ''kb-''), attrContains lib (js ''class'') (js ''kt-''),
     attrContains lib (js ''class'') (js ''kadence''),
     attrContains lib (js ''class'') (js ''wprm-'')]"

text \<open>
  Step 11. A wrapper that is a \<open>div\<close>, \<open>section\<close> or \<open>figure\<close> is replaced by its
  children (or removed when it has none); the children stay in the list of wrappers and
  are visited after it, in their new place. Any other wrapper loses \<open>class\<close> and
  \<open>style\<close>.
\<close>

fun unwrap :: "html_lib \<Rightarrow> html_node \<Rightarrow> html_node list" where
  "unwrap lib (TextNode t) = [TextNode t]"
| "unwrap lib (Element n a cs) =
     (let kids = concat (map (unwrap lib) cs) in
      if isWrapper lib (Element n a cs) then
        (if tagName n = js ''DIV'' \<or> tagName n = js ''SECTION'' \<or> tagName n = js ''FIGURE''
         then kids
         else [Element n (removeAttr lib (js ''style'') (removeAttr lib (js ''class'') a)) kids])
      else [Element n a kids])"

definition unwrapWrappers :: "html_lib \<Rightarrow> html_node list \<Rightarrow> html_node list" where
  "unwrapWrappers lib doc = concat (map (unwrap lib) doc)"

definition generatorId :: "jsstring \<Rightarrow> bool" where
  "generatorId id' \<longleftrightarrow>
     includes_str (js ''wprm-'') id' \<or> includes_str (js ''recipe-'') id' \<or>
     includes_str (js ''kb-'') id' \<or> includes_str (js ''kt-'') id' \<or>
     includes_str (js ''kadence'') id'"

text \<open>
  Step 14. \<open>Object.keys(el.attributes)\<close> are the attribute names as written, and
  \<open>startsWith('data-')\<close> compares them as written.
\<close>

definition removeDataAndIds :: "html_lib \<Rightarrow> attrs \<Rightarrow> attrs" where
  "removeDataAndIds lib a =
     (let a = foldl (\<lambda>a attr. if startsWith (js ''data-'') attr then removeAttr lib attr a else a)
                a (map fst (rawAttributes a));
          id' = (case getAttr lib (js ''id'') a of None \<Rightarrow> [] | Some v \<Rightarrow> v)
      in if generatorId id' then removeAttr lib (js ''id'') a else a)"

definition stripAttributes :: "html_lib \<Rightarrow> html_node list \<Rightarrow> html_node list" where
  "stripAttributes lib doc =
     (let doc = updateAll (hasAttribute (js ''class'')) (removeAttr lib (js ''class'')) doc;
          doc = updateAll (hasAttribute (js ''style'')) (removeAttr lib (js ''style'')) doc;
          doc = updateAll isElement (removeDataAndIds lib) doc
      in doc)"

text \<open>The selector \<open>img, a, mark\<close>.\<close>

definition embedded :: "html_node \<Rightarrow> bool" where
  "embedded = anyOf [hasTag (js ''img''), hasTag (js ''a''), hasTag (js ''mark'')]"

definition emptyParagraph :: "html_lib \<Rightarrow> html_node \<Rightarrow> bool" where
  "emptyParagraph lib p \<longleftrightarrow>
     hasTag (js ''p'') p \<and> trim (textContent lib p) = [] \<and> querySelector embedded p = None"

definition emptyContainer :: "html_node \<Rightarrow> bool" where
  "emptyContainer el \<longleftrightarrow>
     anyOf [hasTag (js ''div''), hasTag (js ''span'')] el \<and> trim (innerHTML el) = []"

definition removeEmpty :: "html_lib \<Rightarrow> html_node list \<Rightarrow> html_node list" where
  "removeEmpty lib doc =
     (let doc = removeAll (emptyParagraph lib) doc;
          doc = removeAll emptyContainer doc
      in doc)"

definition sanitizeTree :: "html_lib \<Rightarrow> html_node list \<Rightarrow> html_node list" where
  "sanitizeTree lib doc =
     (let doc = removeScriptStyle doc;
          doc = removeWidgets lib doc;
          doc = removeIconSvgs lib doc;
          doc = removeEventHandlers lib doc;
          doc = unwrapWrappers lib doc;
          doc = stripAttributes lib doc;
          doc = removeEmpty lib doc
      in doc)"

definition cleanWordPressHtml :: "html_lib \<Rightarrow> jsstring \<Rightarrow> jsstring" where
  "cleanWordPressHtml lib html =
     (if html = [] then []
      else
        let cleaned = preprocess html;
            root = parseHtml lib cleaned;
            root = sanitizeTree lib root
        in trim (toString root))"

section \<open>Conversion to the editor state\<close>

text \<open>
  \<open>s.split(re)\<close>: the pieces between the matches; with a capture group around the
  whole pattern each match is put between its neighbours. \<open>acc\<close> is the piece read since
  the last match.
\<close>

function split_re :: "'g matcher \<Rightarrow> bool \<Rightarrow> jsstring \<Rightarrow> jsstring \<Rightarrow> jsstring list" where
  "split_re m captured acc [] = [acc]"
| "split_re m captured acc (c # cs) =
     (case m c cs of
        None \<Rightarrow> split_re m captured (acc @ [c]) cs
      | Some (g, n) \<Rightarrow>
          acc # (if captured then [c # take n cs] else []) @ split_re m captured [] (drop n cs))"
  by pat_completeness auto
termination
  by (relation "measure (\<lambda>(m, captured, acc, s). length s)") auto

text \<open>\<open>s.match(re)\<close> without the \<open>g\<close> flag: the captures of the first match.\<close>

fun search_re :: "'g matcher \<Rightarrow> jsstring \<Rightarrow> 'g option" where
  "search_re m [] = None"
| "search_re m (c # cs) = (case m c cs of Some (g, n) \<Rightarrow> Some g | None \<Rightarrow> search_re m cs)"

text \<open>
  \<open>/(&lt;table[\s\S]*?&lt;\/table>|&lt;ul[\s\S]*?&lt;\/ul>|&lt;ol[\s\S]*?&lt;\/ol>)/gi\<close>: the alternatives
  are tried in order.
\<close>

definition region :: "jsstring \<Rightarrow> jsstring \<Rightarrow> jsstring \<Rightarrow> jsstring option" where
  "region opening closing cs = Option.bind (lit_ci opening cs) (find_after (lit_ci closing))"

definition segment_re :: "unit matcher" where
  "segment_re c cs =
     (if c \<noteq> 0x3C then None
      else consumed cs
        (case region (js ''table'') (js ''</table>'') cs of
           Some r \<Rightarrow> Some r
         | None \<Rightarrow>
             (case region (js ''ul'') (js ''</ul>'') cs of
                Some r \<Rightarrow> Some r
              | None \<Rightarrow> region (js ''ol'') (js ''</ol>'') cs)))"

text \<open>\<open>/&lt;\/(?:p|h[1-6]|div)>/i\<close>\<close>

definition isLevel :: "jschar \<Rightarrow> bool" where
  "isLevel c \<longleftrightarrow> 0x31 \<le> c \<and> c \<le> 0x36"

definition lit_level :: "jsstring \<Rightarrow> (jschar \<times> jsstring) option" where
  "lit_level s =
     (case lit_ci (js ''h'') s of
        None \<Rightarrow> None
      | Some r \<Rightarrow> (case r of [] \<Rightarrow> None | d # r' \<Rightarrow> if isLevel d then Some (d, r') else None))"

definition block_close_re :: "unit matcher" where
  "block_close_re c cs =
     (if c \<noteq> 0x3C then None
      else case lit (js ''/'') cs of
        None \<Rightarrow> None
      | Some r \<Rightarrow>
          consumed cs
            (case Option.bind (lit_ci (js ''p'') r) (lit (js ''>'')) of
               Some r' \<Rightarrow> Some r'
             | None \<Rightarrow>
                 (case Option.bind (lit_level r) (\<lambda>(d, r'). lit (js ''>'') r') of
                    Some r' \<Rightarrow> Some r'
                  | None \<Rightarrow> Option.bind (lit_ci (js ''div'') r) (lit (js ''>'')))))"

text \<open>\<open>/&lt;h([1-6])[^>]*>([\s\S]*)/i\<close>: the captures are the level and the rest of the block.\<close>

definition heading_re :: "(jschar \<times> jsstring) matcher" where
  "heading_re c cs =
     (if c \<noteq> 0x3C then None
      else case lit_level cs of
        None \<Rightarrow> None
      | Some (d, r) \<Rightarrow>
          (case skip_to_gt r of None \<Rightarrow> None | Some r' \<Rightarrow> Some ((d, r'), length cs)))"

text \<open>\<open>/&lt;p[^>]*>([\s\S]*)/i\<close>\<close>

definition paragraph_re :: "jsstring matcher" where
  "paragraph_re c cs =
     (if c \<noteq> 0x3C then None
      else case Option.bind (lit_ci (js ''p'') cs) skip_to_gt of
        None \<Rightarrow> None
      | Some r \<Rightarrow> Some (r, length cs))"

definition textOf :: "jsstring \<Rightarrow> jsstring" where
  "textOf markup = decodeHtmlEntities (trim (stripTags markup))"

definition processBlock :: "jsstring \<Rightarrow> lexical_node list" where
  "processBlock block =
     (case search_re heading_re block of
        Some (level, rest) \<Rightarrow>
          (let text = textOf rest in
           if text \<noteq> [] then [Heading (js ''h'' @ [level]) [Text text]] else [])
      | None \<Rightarrow>
          (case search_re paragraph_re block of
             Some rest \<Rightarrow>
               (let text = textOf rest in
                if text \<noteq> [] then [Paragraph [Text text]] else [])
           | None \<Rightarrow>
               (let text = textOf block in
                if text \<noteq> [] \<and> \<not> includes_str (js ''<li'') block
                then [Paragraph [Text text]] else [])))"

definition optionList :: "'a option \<Rightarrow> 'a list" where
  "optionList x = (case x of None \<Rightarrow> [] | Some y \<Rightarrow> [y])"

definition processSegment :: "html_lib \<Rightarrow> jsstring \<Rightarrow> lexical_node list" where
  "processSegment lib segment =
     (if trim segment = [] then []
      else if startsWith (js ''<table'') (toLowerCase segment)
        then optionList (parseHtmlTable segment)
      else if startsWith (js ''<ul'') (toLowerCase segment)
        then optionList (parseHtmlList lib segment False)
      else if startsWith (js ''<ol'') (toLowerCase segment)
        then optionList (parseHtmlList lib segment True)
      else
        let blocks = filter (\<lambda>block. block \<noteq> [])
                       (map trim (split_re block_close_re False [] segment))
        in concat (map processBlock blocks))"

definition placeholder :: lexical_node where
  "placeholder = Paragraph [Text (js ''[Content conversion needed]'')]"

definition htmlToLexical :: "html_lib \<Rightarrow> jsstring \<Rightarrow> lexical_node" where
  "htmlToLexical lib html =
     (let cleanedHtml = cleanWordPressHtml lib html;
          segments = split_re segment_re True [] cleanedHtml;
          children = concat (map (processSegment lib) segments)
      in Root (if children = [] then [placeholder] else children))"

section \<open>Sample inputs\<close>

text \<open>
  A stand-in for the library on markup without entities: the parser yields the given
  tree, decoding changes nothing, an attribute value is quoted as it is.
\<close>

definition plainLib :: "html_node list \<Rightarrow> html_lib" where
  "plainLib tree =
     \<lparr>parseHtml = (\<lambda>s. tree), decode = (\<lambda>s. s), quoteAttribute = (\<lambda>v. js ''\"'' @ v @ js ''\"'')\<rparr>"

text \<open>An element without attributes.\<close>

definition bare :: "string \<Rightarrow> html_node list \<Rightarrow> html_node" where
  "bare n cs = Element (js n) (Attrs [] []) cs"

text \<open>The tree of \<open>&lt;ul>&lt;li>A&lt;/li>&lt;li> &lt;/li>&lt;li>B&lt;/li>&lt;/ul>\<close>.\<close>

definition sampleListHtml :: jsstring where
  "sampleListHtml = js ''<ul><li>A</li><li> </li><li>B</li></ul>''"

definition sampleList :: "html_node list" where
  "sampleList =
     [bare ''ul''
        [bare ''li'' [TextNode (js ''A'')],
         bare ''li'' [TextNode (js '' '')],
         bare ''li'' [TextNode (js ''B'')]]]"

definition sampleTableHtml :: jsstring where
  "sampleTableHtml =
     js ''<table><thead><tr><th>Name</th><TH class=\"n\">Dose</TH></tr></thead><tbody><tr><td>A &amp; <b>B</b></td><td> </td></tr></tbody></table>''"

definition sampleHeaderRow :: jsstring where
  "sampleHeaderRow = js ''<tr><th>Name</th><TH class=\"n\">Dose</TH></tr>''"

definition sampleBodyRow :: jsstring where
  "sampleBodyRow = js ''<tr><td>A &amp; <b>B</b></td><td> </td></tr>''"

text \<open>The tree of \<open>&lt;ul>&lt;li>A&lt;/li>&lt;li>B&lt;/li>&lt;/ul>\<close>.\<close>

definition listAB :: "html_node list" where
  "listAB =
     [bare ''ul''
        [bare ''li'' [TextNode (js ''A'')],
         bare ''li'' [TextNode (js ''B'')]]]"

text \<open>A library whose parser finds no markup at all: the whole input is one text node.\<close>

definition textLib :: html_lib where
  "textLib =
     \<lparr>parseHtml = (\<lambda>s. if s = [] then [] else [TextNode s]), decode = (\<lambda>s. s),
      quoteAttribute = (\<lambda>v. js ''\"'' @ v @ js ''\"'')\<rparr>"

text \<open>
  Markup inside \<open>pre\<close>: the parser keeps what stands between \<open>&lt;pre>\<close> and \<open>&lt;/pre>\<close> as
  the raw text of one text node.
\<close>

definition preHtml :: jsstring where
  "preHtml = js ''<pre><script>alert(1)</script><p class=\"c\" style=\"s\" data-k=\"v\"></p></pre>''"

definition preTree :: "html_node list" where
  "preTree =
     [bare ''pre''
        [TextNode (js ''<script>alert(1)</script><p class=\"c\" style=\"s\" data-k=\"v\"></p>'')]]"

text \<open>A paragraph whose attribute names are written in upper case.\<close>

definition upperHtml :: jsstring where
  "upperHtml = js ''<p CLASS=\"x\" STYLE=\"y\" DATA-k=\"z\">t</p>''"

definition upperTree :: "html_node list" where
  "upperTree =
     [Element (js ''p'')
        (Attrs (js ''CLASS=\"x\" STYLE=\"y\" DATA-k=\"z\"'')
           [(js ''CLASS'', js ''x''), (js ''STYLE'', js ''y''), (js ''DATA-k'', js ''z'')])
        [TextNode (js ''t'')]]"

section \<open>Properties of strings\<close>

lemma js_nonempty: "js (c # cs) \<noteq> []"
  by (simp add: js_def)

section \<open>Properties of the entity decoder\<close>

lemma split_from_no_sep:
  "sep \<noteq> [] \<Longrightarrow> \<not> includes_str sep s \<Longrightarrow> split_from sep acc s = [acc @ s]"
  by (induction sep acc s rule: split_from.induct) simp_all

lemma split_join_no_sep:
  "sep \<noteq> [] \<Longrightarrow> \<not> includes_str sep s \<Longrightarrow> join glue (split sep s) = s"
  by (simp add: split_def split_from_no_sep)

lemma replace_re_no_match: "\<not> has_match m s \<Longrightarrow> replace_re m f s = s"
  by (induction m f s rule: replace_re.induct) (auto split: option.splits)

lemma foldl_named_id:
  "\<forall>(entity, char) \<in> set es. entity \<noteq> [] \<and> \<not> includes_str entity s \<Longrightarrow>
   foldl (\<lambda>decoded (entity, char). join char (split entity decoded)) s es = s"
  by (induction es) (auto simp: split_join_no_sep)

lemma namedEntities_nonempty: "\<forall>(entity, char) \<in> set namedEntities. entity \<noteq> []"
  by (simp add: namedEntities_def js_def)

lemma decode_no_entity:
  assumes "\<not> hasEntity s"
  shows "decodeHtmlEntities s = s"
proof -
  have "\<forall>(entity, char) \<in> set namedEntities. entity \<noteq> [] \<and> \<not> includes_str entity s"
    using assms namedEntities_nonempty by (auto simp: hasEntity_def list_ex_iff)
  then have "replaceNamed s = s"
    unfolding replaceNamed_def by (rule foldl_named_id)
  moreover have "replace_re dec_ref f s = s" for f
    using assms by (simp add: hasEntity_def replace_re_no_match)
  moreover have "replace_re hex_ref f s = s" for f
    using assms by (simp add: hasEntity_def replace_re_no_match)
  ultimately show ?thesis
    by (simp add: decodeHtmlEntities_def)
qed

lemma decode_amp_amp: "decodeHtmlEntities (js ''&amp;amp;'') = js ''&amp;''"
  by code_simp

lemma decode_amp: "decodeHtmlEntities (js ''&amp;'') = js ''&''"
  by code_simp

lemma decode_A_amp_B: "decodeHtmlEntities (js ''A &amp; B'') = js ''A & B''"
  by code_simp

lemma no_entity_A_amp_B: "\<not> hasEntity (js ''A & B'')"
  by code_simp

text \<open>
  C2, as stated, fails: decoding \<open>&amp;amp;amp;\<close> gives \<open>&amp;amp;\<close>, and decoding that
  gives \<open>&amp;\<close>.
\<close>

theorem decode_twice_differs:
  "decodeHtmlEntities (decodeHtmlEntities (js ''&amp;amp;'')) \<noteq>
   decodeHtmlEntities (js ''&amp;amp;'')"
  by (simp add: decode_amp_amp decode_amp) (simp add: js_def)

text \<open>
  C2, amended: the entity decoder is idempotent on text with no remaining entities. When
  the decoded string holds none of the named entities and no numeric reference, decoding
  it again returns it unchanged.
\<close>

theorem decode_idempotent_without_entities:
  assumes "\<not> hasEntity (decodeHtmlEntities s)"
  shows "decodeHtmlEntities (decodeHtmlEntities s) = decodeHtmlEntities s"
  using assms by (rule decode_no_entity)

theorem decode_idempotent_without_entities_witness:
  "\<not> hasEntity (decodeHtmlEntities (js ''A &amp; B'')) \<and>
   decodeHtmlEntities (decodeHtmlEntities (js ''A &amp; B'')) =
     decodeHtmlEntities (js ''A &amp; B'')"
proof -
  have h: "\<not> hasEntity (decodeHtmlEntities (js ''A &amp; B''))"
    by (simp add: decode_A_amp_B no_entity_A_amp_B)
  show ?thesis
    using decode_idempotent_without_entities [OF h] h by simp
qed

lemma replaceNamed_decimal: "replaceNamed (js ''&#128512;'') = js ''&#128512;''"
  by code_simp

lemma replaceNamed_hex: "replaceNamed (js ''&#x1F600;'') = js ''&#x1F600;''"
  by code_simp

lemma parseInt_decimal: "parseInt (js ''128512'') 10 = Some 128512"
  by (simp add: parseInt_def mathInt_def js_def digitValue_def isDigit_def toNumber_def
      floorlog_le_iff)

lemma parseInt_hex: "parseInt (js ''1F600'') 16 = Some 128512"
  by (simp add: parseInt_def mathInt_def js_def digitValue_def isDigit_def toNumber_def
      floorlog_le_iff)

lemma dec_ref_decimal: "replace_re dec_ref f (js ''&#128512;'') = f (js ''128512'')"
  by (simp add: dec_ref_def js_def isDigit_def)

lemma dec_ref_hex: "replace_re dec_ref f (js ''&#x1F600;'') = js ''&#x1F600;''"
  by (simp add: dec_ref_def js_def isDigit_def)

lemma hex_ref_hex: "replace_re hex_ref f (js ''&#x1F600;'') = f (js ''1F600'')"
  by (simp add: hex_ref_def js_def isDigit_def isHexDigit_def)

lemma hex_ref_unit: "replace_re hex_ref f [0xF600] = [0xF600]"
  by (simp add: hex_ref_def)

lemma code_unit_128512: "(word_of_nat 128512 :: jschar) = 0xF600"
  by simp

lemma decode_decimal_astral: "decodeHtmlEntities (js ''&#128512;'') = [0xF600]"
  unfolding decodeHtmlEntities_def Let_def replaceNamed_decimal dec_ref_decimal
    parseInt_decimal fromCharCode_def option.case code_unit_128512 hex_ref_unit
  by (simp add: js_nonempty)

lemma decode_hex_astral: "decodeHtmlEntities (js ''&#x1F600;'') = [0xF600]"
  unfolding decodeHtmlEntities_def Let_def replaceNamed_hex dec_ref_hex hex_ref_hex
    parseInt_hex fromCharCode_def option.case code_unit_128512
  by (simp add: js_nonempty)

text \<open>
  C3 at a reference above U+FFFF: \<open>&amp;#128512;\<close> and \<open>&amp;#x1F600;\<close> name the character
  U+1F600, which in a JavaScript string is the pair of code units D83D DE00. The decoder
  returns the single code unit F600, the code point modulo \<open>2^16\<close>.
\<close>

theorem decode_reference_above_FFFF:
  "decodeHtmlEntities (js ''&#128512;'') = [0xF600] \<and>
   decodeHtmlEntities (js ''&#x1F600;'') = [0xF600] \<and>
   decodeHtmlEntities (js ''&#128512;'') \<noteq> [0xD83D, 0xDE00] \<and>
   decodeHtmlEntities (js ''&#x1F600;'') \<noteq> [0xD83D, 0xDE00]"
  by (simp add: decode_decimal_astral decode_hex_astral)

section \<open>Properties of list parsing\<close>

lemma listItemLoop_values:
  "map itemValue (listItemLoop lib items v) = [v ..< v + length (listItemLoop lib items v)]"
proof (induction items arbitrary: v)
  case Nil
  show ?case by simp
next
  case (Cons item items)
  show ?case
  proof (cases "itemText lib item = []")
    case True
    with Cons show ?thesis by simp
  next
    case False
    have "map itemValue (listItemLoop lib (item # items) v) =
          v # map itemValue (listItemLoop lib items (v + 1))"
      using False by (simp add: Let_def)
    also have "\<dots> = v # [v + 1 ..< v + 1 + length (listItemLoop lib items (v + 1))]"
      using Cons.IH [of "v + 1"] by simp
    also have "\<dots> = [v ..< v + length (listItemLoop lib (item # items) v)]"
      using False by (simp add: Let_def upt_rec)
    finally show ?thesis .
  qed
qed

lemma parseHtmlList_Some:
  "parseHtmlList lib listHtml isOrdered = Some node \<Longrightarrow>
   children node =
     listItemLoop lib (querySelectorAll (hasTag (js ''li'')) (parseHtml lib listHtml)) 1"
  by (auto simp: parseHtmlList_def Let_def split: if_splits)

lemma sampleList_result:
  "parseHtmlList (plainLib sampleList) sampleListHtml False =
   Some (ListNode (js ''bullet'') 1 (js ''ul'')
     [ListItem [Paragraph [Text (js ''A'')]] 1, ListItem [Paragraph [Text (js ''B'')]] 2])"
  by code_simp

text \<open>
  C10: in every list node that list parsing produces, the position values of the list
  items are 1, 2, 3, ... in document order; an item that is skipped because its text is
  empty leaves no gap.
\<close>

theorem parseHtmlList_values_consecutive:
  assumes "parseHtmlList lib listHtml isOrdered = Some node"
  shows "map itemValue (children node) = [1 ..< Suc (length (children node))]"
  using listItemLoop_values
      [of lib "querySelectorAll (hasTag (js ''li'')) (parseHtml lib listHtml)" 1]
    parseHtmlList_Some [OF assms] by simp

theorem parseHtmlList_values_consecutive_witness:
  "parseHtmlList (plainLib sampleList) sampleListHtml False =
     Some (ListNode (js ''bullet'') 1 (js ''ul'')
       [ListItem [Paragraph [Text (js ''A'')]] 1, ListItem [Paragraph [Text (js ''B'')]] 2])
   \<and> map itemValue (children (ListNode (js ''bullet'') 1 (js ''ul'')
       [ListItem [Paragraph [Text (js ''A'')]] 1, ListItem [Paragraph [Text (js ''B'')]] 2]))
     = [1 ..< Suc (length (children (ListNode (js ''bullet'') 1 (js ''ul'')
       [ListItem [Paragraph [Text (js ''A'')]] 1, ListItem [Paragraph [Text (js ''B'')]] 2])))]"
  using parseHtmlList_values_consecutive [OF sampleList_result] sampleList_result by simp

lemma listItemLoop_children:
  "map children (listItemLoop lib items v) =
   map (\<lambda>item. [Paragraph [Text (itemText lib item)]])
     (filter (\<lambda>item. itemText lib item \<noteq> []) items)"
  by (induction items arbitrary: v) (simp_all add: Let_def)

lemma listAB_query:
  "querySelectorAll (hasTag (js ''li'')) listAB =
   [bare ''li'' [TextNode (js ''A'')], bare ''li'' [TextNode (js ''B'')]]"
  by code_simp

lemma listAB_rawText:
  "rawText (bare ''li'' [TextNode (js ''A'')]) = js ''A''"
  "rawText (bare ''li'' [TextNode (js ''B'')]) = js ''B''"
  by code_simp+

lemma decode_trim_letters:
  "decodeHtmlEntities (trim (js ''A'')) = js ''A''"
  "decodeHtmlEntities (trim (js ''B'')) = js ''B''"
  by code_simp+

text \<open>
  C5: for the markup \<open>&lt;ul>&lt;li>A&lt;/li>&lt;li>B&lt;/li>&lt;/ul>\<close>, whose tree is a \<open>ul\<close> element
  with two \<open>li\<close> children holding the texts A and B, and with a library decoder that
  leaves the texts A and B as they are, list parsing yields a list node with exactly two
  list items; each item has one paragraph with one text node, the texts are A and B and
  the position values 1 and 2.
\<close>

theorem parseHtmlList_two_items:
  assumes "parseHtml lib (js ''<ul><li>A</li><li>B</li></ul>'') = listAB"
    and "decode lib (js ''A'') = js ''A''" and "decode lib (js ''B'') = js ''B''"
  shows "parseHtmlList lib (js ''<ul><li>A</li><li>B</li></ul>'') False =
         Some (ListNode (js ''bullet'') 1 (js ''ul'')
           [ListItem [Paragraph [Text (js ''A'')]] 1, ListItem [Paragraph [Text (js ''B'')]] 2])"
proof -
  have a: "itemText lib (bare ''li'' [TextNode (js ''A'')]) = js ''A''"
    by (simp only: itemText_def textContent_def listAB_rawText assms decode_trim_letters)
  have b: "itemText lib (bare ''li'' [TextNode (js ''B'')]) = js ''B''"
    by (simp only: itemText_def textContent_def listAB_rawText assms decode_trim_letters)
  show ?thesis
    unfolding parseHtmlList_def assms(1) Let_def listAB_query
    by (simp add: a b js_nonempty)
qed

lemma plainLib_simps:
  "parseHtml (plainLib tree) s = tree" "decode (plainLib tree) s = s"
  by (simp_all add: plainLib_def)

theorem parseHtmlList_two_items_witness:
  "parseHtml (plainLib listAB) (js ''<ul><li>A</li><li>B</li></ul>'') = listAB \<and>
   decode (plainLib listAB) (js ''A'') = js ''A'' \<and>
   decode (plainLib listAB) (js ''B'') = js ''B'' \<and>
   parseHtmlList (plainLib listAB) (js ''<ul><li>A</li><li>B</li></ul>'') False =
     Some (ListNode (js ''bullet'') 1 (js ''ul'')
       [ListItem [Paragraph [Text (js ''A'')]] 1, ListItem [Paragraph [Text (js ''B'')]] 2])"
  using parseHtmlList_two_items [of "plainLib listAB"] by (simp add: plainLib_simps)

section \<open>Properties of table parsing\<close>

lemma rowLoop_eq:
  "rowLoop rowMatches =
   map (\<lambda>cells. TableRow (map parseCell cells))
     (filter (\<lambda>cells. cells \<noteq> []) (map (match_all cell_re) rowMatches))"
  by (induction rowMatches) (simp_all add: Let_def)

lemma parseHtmlTable_Some:
  "parseHtmlTable tableHtml = Some tbl \<Longrightarrow> tbl = Table (rowLoop (match_all row_re tableHtml))"
  by (auto simp: parseHtmlTable_def Let_def split: if_splits)

lemma lit_ci_th_isHeaderCell: "lit_ci (js ''<th'') c \<noteq> None \<Longrightarrow> isHeaderCell c"
  apply (cases c; simp add: js_def isHeaderCell_def startsWith_def toLowerCase_def split: if_splits)
  subgoal for a as
    apply (cases as; simp split: if_splits)
    subgoal for b bs
      apply (cases bs; simp split: if_splits)
      apply (simp add: lowerChar_def)
      done
    done
  done

lemma lit_ci_td_not_isHeaderCell: "lit_ci (js ''<td'') c \<noteq> None \<Longrightarrow> \<not> isHeaderCell c"
  apply (cases c; simp add: js_def isHeaderCell_def startsWith_def toLowerCase_def split: if_splits)
  subgoal for a as
    apply (cases as; simp split: if_splits)
    subgoal for b bs
      apply (cases bs; simp split: if_splits)
      apply (simp add: lowerChar_def)
      done
    done
  done

lemma sample_rows: "match_all row_re sampleTableHtml = [sampleHeaderRow, sampleBodyRow]"
  by code_simp

lemma sample_header_cells:
  "match_all cell_re sampleHeaderRow = [js ''<th>Name</th>'', js ''<TH class=\"n\">Dose</TH>'']"
  by code_simp

lemma sample_body_cells:
  "match_all cell_re sampleBodyRow = [js ''<td>A &amp; <b>B</b></td>'', js ''<td> </td>'']"
  by code_simp

lemma sample_cell_contents:
  "cellContent (js ''<th>Name</th>'') = js ''Name''"
  "cellContent (js ''<TH class=\"n\">Dose</TH>'') = js ''Dose''"
  "cellContent (js ''<td>A &amp; <b>B</b></td>'') = js ''A & B''"
  "cellContent (js ''<td> </td>'') = []"
  by code_simp+

lemma sample_cell_kinds:
  "lit_ci (js ''<th'') (js ''<th>Name</th>'') \<noteq> None"
  "lit_ci (js ''<th'') (js ''<TH class=\"n\">Dose</TH>'') \<noteq> None"
  "lit_ci (js ''<td'') (js ''<td>A &amp; <b>B</b></td>'') \<noteq> None"
  "lit_ci (js ''<td'') (js ''<td> </td>'') \<noteq> None"
  by code_simp+

text \<open>
  C6: when the row pattern finds exactly two rows in a table, the first made of \<open>th\<close>
  cells and the second of \<open>td\<close> cells, table parsing yields a table node with two rows;
  every cell of the first row has header state 1, every cell of the second row has header
  state 0, and every cell has \<open>colSpan = 1\<close> and \<open>rowSpan = 1\<close>. Each cell holds one
  paragraph with the decoded text of the cell.
\<close>

theorem parseHtmlTable_header_and_body_row:
  assumes rows: "match_all row_re tableHtml = [headerRow, bodyRow]"
    and hs: "match_all cell_re headerRow = hs" "hs \<noteq> []"
      "\<forall>c \<in> set hs. lit_ci (js ''<th'') c \<noteq> None"
    and ds: "match_all cell_re bodyRow = ds" "ds \<noteq> []"
      "\<forall>c \<in> set ds. lit_ci (js ''<td'') c \<noteq> None"
  shows "parseHtmlTable tableHtml =
    Some (Table
      [TableRow (map (\<lambda>c. TableCell
          [Paragraph (if cellContent c \<noteq> [] then [Text (cellContent c)] else [])] 1 1 1) hs),
       TableRow (map (\<lambda>c. TableCell
          [Paragraph (if cellContent c \<noteq> [] then [Text (cellContent c)] else [])] 1 1 0) ds)])"
proof -
  have "isHeaderCell c" if "c \<in> set hs" for c
    using that hs(3) lit_ci_th_isHeaderCell by blast
  then have h: "map parseCell hs = map (\<lambda>c. TableCell
      [Paragraph (if cellContent c \<noteq> [] then [Text (cellContent c)] else [])] 1 1 1) hs"
    by (simp add: parseCell_def Let_def)
  have "\<not> isHeaderCell c" if "c \<in> set ds" for c
    using that ds(3) lit_ci_td_not_isHeaderCell by blast
  then have d: "map parseCell ds = map (\<lambda>c. TableCell
      [Paragraph (if cellContent c \<noteq> [] then [Text (cellContent c)] else [])] 1 1 0) ds"
    by (simp add: parseCell_def Let_def)
  have "rowLoop [headerRow, bodyRow] = [TableRow (map parseCell hs), TableRow (map parseCell ds)]"
    using hs(1,2) ds(1,2) by (simp add: rowLoop_eq)
  then show ?thesis
    by (simp add: parseHtmlTable_def rows h d)
qed

theorem parseHtmlTable_header_and_body_row_witness:
  "match_all row_re sampleTableHtml = [sampleHeaderRow, sampleBodyRow] \<and>
   match_all cell_re sampleHeaderRow = [js ''<th>Name</th>'', js ''<TH class=\"n\">Dose</TH>''] \<and>
   match_all cell_re sampleBodyRow = [js ''<td>A &amp; <b>B</b></td>'', js ''<td> </td>''] \<and>
   parseHtmlTable sampleTableHtml =
     Some (Table
       [TableRow [TableCell [Paragraph [Text (js ''Name'')]] 1 1 1,
                  TableCell [Paragraph [Text (js ''Dose'')]] 1 1 1],
        TableRow [TableCell [Paragraph [Text (js ''A & B'')]] 1 1 0,
                  TableCell [Paragraph []] 1 1 0]])"
proof -
  have hk: "\<forall>c \<in> set [js ''<th>Name</th>'', js ''<TH class=\"n\">Dose</TH>''].
      lit_ci (js ''<th'') c \<noteq> None"
    using sample_cell_kinds(1,2) by simp
  have dk: "\<forall>c \<in> set [js ''<td>A &amp; <b>B</b></td>'', js ''<td> </td>''].
      lit_ci (js ''<td'') c \<noteq> None"
    using sample_cell_kinds(3,4) by simp
  have "parseHtmlTable sampleTableHtml =
     Some (Table
       [TableRow [TableCell [Paragraph [Text (js ''Name'')]] 1 1 1,
                  TableCell [Paragraph [Text (js ''Dose'')]] 1 1 1],
        TableRow [TableCell [Paragraph [Text (js ''A & B'')]] 1 1 0,
                  TableCell [Paragraph []] 1 1 0]])"
    using parseHtmlTable_header_and_body_row
      [OF sample_rows sample_header_cells _ hk sample_body_cells _ dk]
    by (simp add: sample_cell_contents js_nonempty)
  then show ?thesis
    using sample_rows sample_header_cells sample_body_cells by simp
qed

lemma sampleTable_result:
  "parseHtmlTable sampleTableHtml =
     Some (Table
       [TableRow [TableCell [Paragraph [Text (js ''Name'')]] 1 1 1,
                  TableCell [Paragraph [Text (js ''Dose'')]] 1 1 1],
        TableRow [TableCell [Paragraph [Text (js ''A & B'')]] 1 1 0,
                  TableCell [Paragraph []] 1 1 0]])"
  by code_simp

lemma sampleList_items: "length (querySelectorAll (hasTag (js ''li'')) sampleList) = 3"
  by code_simp

lemma sampleList_blank_item:
  "itemText (plainLib sampleList) (bare ''li'' [TextNode (js '' '')]) = []"
  by code_simp

section \<open>Items and cells without text\<close>

text \<open>
  C1, as stated, fails for list items: the sample list has three \<open>li\<close> elements, the
  second holds only a blank; the list node has two items and none for the blank one.
\<close>

theorem parseHtmlList_omits_blank_item:
  "length (querySelectorAll (hasTag (js ''li'')) sampleList) = 3 \<and>
   itemText (plainLib sampleList) (bare ''li'' [TextNode (js '' '')]) = [] \<and>
   parseHtmlList (plainLib sampleList) sampleListHtml False =
     Some (ListNode (js ''bullet'') 1 (js ''ul'')
       [ListItem [Paragraph [Text (js ''A'')]] 1, ListItem [Paragraph [Text (js ''B'')]] 2])"
  by (simp add: sampleList_items sampleList_blank_item sampleList_result)

text \<open>
  C1, amended: every cell that the cell pattern finds in a row with cells has its cell
  node in the row node, and a cell whose content is empty after tag stripping and entity
  decoding holds a paragraph with zero children. A list item whose decoded text is empty
  is skipped: the list node has one item, holding one paragraph with one text node, for
  each \<open>li\<close> element with text, and none for the others.
\<close>

theorem empty_cell_kept_empty_item_skipped:
  "(parseHtmlTable tableHtml = Some tbl \<longrightarrow>
      map children (children tbl) =
      map (map parseCell)
        (filter (\<lambda>cells. cells \<noteq> []) (map (match_all cell_re) (match_all row_re tableHtml))))
   \<and> (cellContent cellHtml = [] \<longrightarrow> children (parseCell cellHtml) = [Paragraph []])
   \<and> (parseHtmlList lib listHtml isOrdered = Some node \<longrightarrow>
      map children (children node) =
      map (\<lambda>item. [Paragraph [Text (itemText lib item)]])
        (filter (\<lambda>item. itemText lib item \<noteq> [])
           (querySelectorAll (hasTag (js ''li'')) (parseHtml lib listHtml))))"
proof (intro conjI impI)
  assume "parseHtmlTable tableHtml = Some tbl"
  then have "tbl = Table (rowLoop (match_all row_re tableHtml))"
    by (rule parseHtmlTable_Some)
  then show "map children (children tbl) =
      map (map parseCell)
        (filter (\<lambda>cells. cells \<noteq> []) (map (match_all cell_re) (match_all row_re tableHtml)))"
    by (simp add: rowLoop_eq comp_def)
next
  assume "cellContent cellHtml = []"
  then show "children (parseCell cellHtml) = [Paragraph []]"
    by (simp add: parseCell_def)
next
  assume "parseHtmlList lib listHtml isOrdered = Some node"
  then have "children node =
      listItemLoop lib (querySelectorAll (hasTag (js ''li'')) (parseHtml lib listHtml)) 1"
    by (rule parseHtmlList_Some)
  then show "map children (children node) =
      map (\<lambda>item. [Paragraph [Text (itemText lib item)]])
        (filter (\<lambda>item. itemText lib item \<noteq> [])
           (querySelectorAll (hasTag (js ''li'')) (parseHtml lib listHtml)))"
    by (simp add: listItemLoop_children)
qed

theorem empty_cell_kept_empty_item_skipped_witness:
  "parseHtmlTable sampleTableHtml =
     Some (Table
       [TableRow [TableCell [Paragraph [Text (js ''Name'')]] 1 1 1,
                  TableCell [Paragraph [Text (js ''Dose'')]] 1 1 1],
        TableRow [TableCell [Paragraph [Text (js ''A & B'')]] 1 1 0,
                  TableCell [Paragraph []] 1 1 0]])
   \<and> map (map parseCell)
        (filter (\<lambda>cells. cells \<noteq> [])
           (map (match_all cell_re) (match_all row_re sampleTableHtml))) =
      [[TableCell [Paragraph [Text (js ''Name'')]] 1 1 1,
        TableCell [Paragraph [Text (js ''Dose'')]] 1 1 1],
       [TableCell [Paragraph [Text (js ''A & B'')]] 1 1 0,
        TableCell [Paragraph []] 1 1 0]]
   \<and> cellContent (js ''<td> </td>'') = []
   \<and> children (parseCell (js ''<td> </td>'')) = [Paragraph []]
   \<and> parseHtmlList (plainLib sampleList) sampleListHtml False =
       Some (ListNode (js ''bullet'') 1 (js ''ul'')
         [ListItem [Paragraph [Text (js ''A'')]] 1, ListItem [Paragraph [Text (js ''B'')]] 2])
   \<and> map (\<lambda>item. [Paragraph [Text (itemText (plainLib sampleList) item)]])
        (filter (\<lambda>item. itemText (plainLib sampleList) item \<noteq> [])
           (querySelectorAll (hasTag (js ''li''))
              (parseHtml (plainLib sampleList) sampleListHtml))) =
      [[Paragraph [Text (js ''A'')]], [Paragraph [Text (js ''B'')]]]"
  using empty_cell_kept_empty_item_skipped
      [of sampleTableHtml
        "Table
          [TableRow [TableCell [Paragraph [Text (js ''Name'')]] 1 1 1,
                     TableCell [Paragraph [Text (js ''Dose'')]] 1 1 1],
           TableRow [TableCell [Paragraph [Text (js ''A & B'')]] 1 1 0,
                     TableCell [Paragraph []] 1 1 0]]"
        "js ''<td> </td>''" "plainLib sampleList" sampleListHtml False
        "ListNode (js ''bullet'') 1 (js ''ul'')
          [ListItem [Paragraph [Text (js ''A'')]] 1, ListItem [Paragraph [Text (js ''B'')]] 2]"]
    sampleTable_result sampleList_result sample_cell_contents(4)
  by simp

section \<open>Blank input\<close>

lemma trim_empty_iff: "trim s = [] \<longleftrightarrow> (\<forall>c \<in> set s. isWhiteSpace c)"
proof
  assume "trim s = []"
  then have a: "\<forall>c \<in> set (dropWhile isWhiteSpace s). isWhiteSpace c"
    by (simp add: trim_def)
  have "dropWhile isWhiteSpace s = []"
  proof (rule ccontr)
    assume n: "dropWhile isWhiteSpace s \<noteq> []"
    then have "\<not> isWhiteSpace (hd (dropWhile isWhiteSpace s))"
      by (rule hd_dropWhile)
    moreover have "hd (dropWhile isWhiteSpace s) \<in> set (dropWhile isWhiteSpace s)"
      using n by (rule hd_in_set)
    ultimately show False using a by blast
  qed
  then show "\<forall>c \<in> set s. isWhiteSpace c"
    by simp
next
  assume "\<forall>c \<in> set s. isWhiteSpace c"
  then have d: "dropWhile isWhiteSpace s = []"
    by simp
  show "trim s = []"
    unfolding trim_def d by simp
qed

lemma replace_re_no_start:
  "\<forall>c \<in> set s. \<forall>cs. m c cs = None \<Longrightarrow> replace_re m f s = s"
  by (induction s) simp_all

lemma lt_not_space: "\<not> isWhiteSpace 0x3C"
  by (simp add: isWhiteSpace_def)

lemma preprocess_blank:
  assumes "trim html = []"
  shows "preprocess html = html"
proof -
  have "\<forall>c \<in> set html. c \<noteq> 0x3C"
    using assms lt_not_space by (auto simp: trim_empty_iff)
  then have "replace_re wp_comment_re f html = html" "replace_re bad_close_re f html = html" for f
    by (simp_all add: replace_re_no_start wp_comment_re_def bad_close_re_def)
  then show ?thesis
    by (simp add: preprocess_def)
qed

lemma outerHTML_element: "0x3C \<in> set (outerHTML (Element n a cs))"
  by (simp add: js_def)

lemma blank_toString_textOnly:
  assumes "trim (toString doc) = []"
  shows "\<forall>n \<in> set doc. \<not> isElement n"
proof
  fix n assume n: "n \<in> set doc"
  show "\<not> isElement n"
  proof (cases n)
    case (TextNode t)
    then show ?thesis by simp
  next
    case (Element tag a cs)
    then have "0x3C \<in> set (toString doc)"
      using n outerHTML_element [of tag a cs]
      by (auto simp: toString_def simp del: outerHTML.simps)
    then show ?thesis
      using assms lt_not_space by (auto simp: trim_empty_iff)
  qed
qed

lemma removeAll_textOnly: "\<forall>n \<in> set doc. \<not> isElement n \<Longrightarrow> removeAll P doc = doc"
proof (induction doc)
  case Nil
  show ?case by (simp add: removeAll_def)
next
  case (Cons n doc)
  then show ?case by (cases n) (simp_all add: removeAll_def)
qed

lemma updateAll_textOnly: "\<forall>n \<in> set doc. \<not> isElement n \<Longrightarrow> updateAll sel f doc = doc"
proof (induction doc)
  case Nil
  show ?case by (simp add: updateAll_def)
next
  case (Cons n doc)
  then show ?case by (cases n) (simp_all add: updateAll_def)
qed

lemma unwrapWrappers_textOnly:
  "\<forall>n \<in> set doc. \<not> isElement n \<Longrightarrow> unwrapWrappers lib doc = doc"
proof (induction doc)
  case Nil
  show ?case by (simp add: unwrapWrappers_def)
next
  case (Cons n doc)
  then show ?case by (cases n) (simp_all add: unwrapWrappers_def)
qed

lemma foldl_removeAll_textOnly:
  "\<forall>n \<in> set doc. \<not> isElement n \<Longrightarrow> foldl (\<lambda>doc sel. removeAll sel doc) doc sels = doc"
  by (induction sels) (simp_all add: removeAll_textOnly)

lemma sanitizeTree_textOnly:
  assumes "\<forall>n \<in> set doc. \<not> isElement n"
  shows "sanitizeTree lib doc = doc"
  using assms
  by (simp add: sanitizeTree_def removeScriptStyle_def removeWidgets_def removeIconSvgs_def
      removeEventHandlers_def stripAttributes_def removeEmpty_def removeAll_textOnly
      updateAll_textOnly unwrapWrappers_textOnly foldl_removeAll_textOnly)

lemma cleanWordPressHtml_blank:
  assumes "trim html = []"
    and "\<And>s. trim s = [] \<Longrightarrow> trim (toString (parseHtml lib s)) = []"
  shows "cleanWordPressHtml lib html = []"
proof -
  have t: "trim (toString (parseHtml lib (preprocess html))) = []"
    using assms by (simp add: preprocess_blank)
  then have "sanitizeTree lib (parseHtml lib (preprocess html)) = parseHtml lib (preprocess html)"
    by (intro sanitizeTree_textOnly blank_toString_textOnly)
  then show ?thesis
    using t by (simp add: cleanWordPressHtml_def)
qed

lemma trim_Nil: "trim [] = []"
  by (simp add: trim_def)

text \<open>
  C4: for markup that is empty or consists of white space only, the converter returns a
  root with exactly one child, the placeholder paragraph; and for any markup the root has
  at least one child. The library is a parameter; what is asked of its parser is that it
  finds no element in blank markup, so that the serialized tree is blank again.
\<close>

theorem htmlToLexical_blank_input:
  assumes "trim html = []"
    and "\<And>s. trim s = [] \<Longrightarrow> trim (toString (parseHtml lib s)) = []"
  shows "htmlToLexical lib html = Root [placeholder] \<and>
         children (htmlToLexical lib' html') \<noteq> []"
  using cleanWordPressHtml_blank [OF assms]
  by (simp add: htmlToLexical_def Let_def processSegment_def trim_Nil)

lemma textLib_blank: "trim s = [] \<Longrightarrow> trim (toString (parseHtml textLib s)) = []"
  by (simp add: textLib_def toString_def trim_Nil)

lemma blank_sample: "trim (js '' '' @ [0x0A, 0x09]) = []"
  by (simp add: trim_empty_iff js_def isWhiteSpace_def)

theorem htmlToLexical_blank_input_witness:
  "trim (js '' '' @ [0x0A, 0x09]) = [] \<and>
   htmlToLexical textLib (js '' '' @ [0x0A, 0x09]) = Root [placeholder] \<and>
   htmlToLexical textLib [] = Root [placeholder]"
  using htmlToLexical_blank_input [OF blank_sample textLib_blank]
    htmlToLexical_blank_input [OF trim_Nil textLib_blank]
    blank_sample
  by simp

section \<open>The sanitizer on markup it does not clean\<close>

lemma pre_unchanged: "cleanWordPressHtml (plainLib preTree) preHtml = preHtml"
  by code_simp

lemma upper_unchanged: "cleanWordPressHtml (plainLib upperTree) upperHtml = upperHtml"
  by code_simp

lemma pre_contents:
  "includes_str (js ''<script>alert(1)</script>'') preHtml"
  "includes_str (js ''<p class=\"c\" style=\"s\" data-k=\"v\"></p>'') preHtml"
  by code_simp+

lemma upper_contents: "includes_str (js ''<p CLASS=\"x\" STYLE=\"y\" DATA-k=\"z\">'') upperHtml"
  by code_simp

text \<open>
  C7 at two inputs. The markup \<open>&lt;p CLASS="x" STYLE="y" DATA-k="z">t&lt;/p>\<close> is returned as it
  is: the selectors \<open>[class]\<close> and \<open>[style]\<close> find the element, but
  \<open>removeAttribute('class')\<close> and \<open>removeAttribute('style')\<close> delete only a name spelled
  in lower case, and \<open>startsWith('data-')\<close> does not hold of \<open>DATA-k\<close>. Markup inside
  \<open>pre\<close> is text to the parser, no pass sees it, and the paragraph with \<open>class\<close>,
  \<open>style\<close> and \<open>data-k\<close> is returned as it is.
\<close>

theorem sanitizer_keeps_presentational_attributes:
  "cleanWordPressHtml (plainLib upperTree) upperHtml =
     js ''<p CLASS=\"x\" STYLE=\"y\" DATA-k=\"z\">t</p>'' \<and>
   includes_str (js ''<p class=\"c\" style=\"s\" data-k=\"v\">'')
     (cleanWordPressHtml (plainLib preTree) preHtml)"
  unfolding pre_unchanged upper_unchanged by code_simp

text \<open>
  C8 at markup inside \<open>pre\<close>: the script element with its content is returned as it is.
\<close>

theorem sanitizer_keeps_script_inside_pre:
  "cleanWordPressHtml (plainLib preTree) preHtml =
     js ''<pre><script>alert(1)</script><p class=\"c\" style=\"s\" data-k=\"v\"></p></pre>'' \<and>
   includes_str (js ''<script>alert(1)</script>'')
     (cleanWordPressHtml (plainLib preTree) preHtml)"
  unfolding pre_unchanged by code_simp

text \<open>
  C9 at markup inside \<open>pre\<close>: the paragraph without text and without \<open>img\<close>, \<open>a\<close> or
  \<open>mark\<close> is returned as it is.
\<close>

theorem sanitizer_keeps_empty_paragraph_inside_pre:
  "includes_str (js ''<p class=\"c\" style=\"s\" data-k=\"v\"></p>'')
     (cleanWordPressHtml (plainLib preTree) preHtml)"
  unfolding pre_unchanged by code_simp

end
